theory Spec2Isabelle
  imports Complex_Main
begin

section \<open>Values of the request module\<close>

text \<open>
  The order side and the protocol tag of a request. The tag is a string at run time;
  \<open>Other s\<close> stands for a tag \<open>s\<close> that is none of the five enum values.
\<close>

datatype SIDE = BUY | SELL

datatype Protocol = AMMV1 | AMMV2 | PMMV5 | RFQV1 | RFQV2 | Other string


text \<open>
  A JavaScript number, as far as the fee factor needs it: the value is kept exact (no
  rounding to binary64), with NaN and the two infinities apart.
\<close>

datatype number = NaN | PosInf | NegInf | Fin rat

text \<open>A JavaScript value that is undefined, null, a number or a string.\<close>

datatype jsval = Undefined | Null | JNum number | JStr string

subsection \<open>Decimal arithmetic\<close>

text \<open>
  Modelled from the spec: the BigNumber class is not in the source file (it comes from
  \<^verbatim>\<open>../utils\<close>). The spec words its arithmetic as exact decimal arithmetic. A BigNumber is
  an exact rational, or \<open>NonFinite\<close> for what a division by zero leaves (NaN, an
  infinity), which every later operation keeps.
\<close>

datatype BigNumber = Finite rat | NonFinite

text \<open>Modelled from the spec: the method \<^verbatim>\<open>times\<close> of BigNumber, exact multiplication.\<close>

definition times_bn :: "BigNumber \<Rightarrow> BigNumber \<Rightarrow> BigNumber" where
  "times_bn x y = (case (x, y) of (Finite a, Finite b) \<Rightarrow> Finite (a * b) | _ \<Rightarrow> NonFinite)"

text \<open>Modelled from the spec: the method \<^verbatim>\<open>dividedBy\<close> of BigNumber, exact division.\<close>

definition dividedBy :: "BigNumber \<Rightarrow> BigNumber \<Rightarrow> BigNumber" where
  "dividedBy x y =
     (case (x, y) of
        (Finite a, Finite b) \<Rightarrow> if b = 0 then NonFinite else Finite (a / b)
      | _ \<Rightarrow> NonFinite)"

text \<open>
  Modelled from the spec: the method \<^verbatim>\<open>toFixed\<close> of BigNumber, which the spec words as
  truncation (round toward zero) to a number of fractional digits. The rounding mode
  that \<^verbatim>\<open>toFixed\<close> applies is the one the BigNumber class is configured with, outside
  the source file; the model takes the spec's. \<^verbatim>\<open>toFixed\<close> yields a decimal string that
  \<^verbatim>\<open>fromUnitToDecimalBN\<close> reads back; the model keeps the value the string denotes.
\<close>

definition truncInt :: "rat \<Rightarrow> int" where
  "truncInt y = (if 0 \<le> y then \<lfloor>y\<rfloor> else \<lceil>y\<rceil>)"

definition truncateTo :: "nat \<Rightarrow> rat \<Rightarrow> rat" where
  "truncateTo dp x = of_int (truncInt (x * 10 ^ dp)) / 10 ^ dp"

definition toFixed :: "BigNumber \<Rightarrow> nat \<Rightarrow> BigNumber" where
  "toFixed x dp = (case x of Finite a \<Rightarrow> Finite (truncateTo dp a) | NonFinite \<Rightarrow> NonFinite)"

text \<open>
  Modelled from the spec: \<^verbatim>\<open>fromUnitToDecimalBN\<close> is not in the source file (it comes from
  \<^verbatim>\<open>../utils\<close>). The spec words it as scaling to base units: the decimal amount times ten
  to the token's decimals.
\<close>

definition fromUnitToDecimalBN :: "BigNumber \<Rightarrow> nat \<Rightarrow> BigNumber" where
  "fromUnitToDecimalBN balance d = times_bn balance (Finite (10 ^ d))"

section \<open>The amount calculator\<close>

record Token =
  symbol :: string
  contractAddress :: string
  decimal :: nat
  precision :: nat
  minTradeAmount :: number
  maxTradeAmount :: number

definition TRUNCATE_PRECISION :: nat where
  "TRUNCATE_PRECISION = 6"

definition findSuitablePrecision :: "nat \<Rightarrow> nat" where
  "findSuitablePrecision decimals = (if decimals < 8 then TRUNCATE_PRECISION else 8)"

text \<open>
  \<^verbatim>\<open>extractAssetAmounts\<close> returns the object \<^verbatim>\<open>{ makerAssetAmount, takerAssetAmount }\<close>,
  here the pair in that order. \<^verbatim>\<open>rate.toString()\<close> is read by the BigNumber constructor;
  the argument \<open>rate\<close> is the decimal it denotes.
\<close>

definition extractAssetAmounts ::
  "Token \<Rightarrow> Token \<Rightarrow> SIDE \<Rightarrow> BigNumber \<Rightarrow> BigNumber \<Rightarrow> BigNumber \<times> BigNumber" where
  "extractAssetAmounts makerToken takerToken sd rate amountBN =
     (if sd = BUY then
        (fromUnitToDecimalBN (toFixed amountBN (precision makerToken)) (decimal makerToken),
         fromUnitToDecimalBN
           (toFixed (dividedBy amountBN rate) (findSuitablePrecision (decimal takerToken)))
           (decimal takerToken))
      else
        (fromUnitToDecimalBN
           (toFixed (times_bn amountBN rate) (findSuitablePrecision (decimal makerToken)))
           (decimal makerToken),
         fromUnitToDecimalBN (toFixed amountBN (precision takerToken)) (decimal takerToken)))"

section \<open>JavaScript conversions\<close>

text \<open>
  \<^verbatim>\<open>String.prototype.toLowerCase\<close> on the ASCII letters; a string is a list of bytes, and
  an address holds ASCII only.
\<close>

definition lowerChar :: "char \<Rightarrow> char" where
  "lowerChar c =
     (let n = (of_char c :: nat) in if 65 \<le> n \<and> n \<le> 90 then char_of (n + 32) else c)"

definition toLowerCase :: "string \<Rightarrow> string" where
  "toLowerCase s = map lowerChar s"

definition isLowerCase :: "string \<Rightarrow> bool" where
  "isLowerCase s = (toLowerCase s = s)"

text \<open>
  The conversion of a string to a number (the unary plus and \<^verbatim>\<open>Number(...)\<close>): white
  space is trimmed, the empty string is 0, then a hexadecimal, octal or binary integer
  literal without sign, or a signed decimal literal with optional fraction and exponent,
  or a signed \<^verbatim>\<open>Infinity\<close>; anything else is NaN.
\<close>

definition isStrWhiteSpaceChar :: "char \<Rightarrow> bool" where
  "isStrWhiteSpaceChar c = ((of_char c :: nat) \<in> set [9, 10, 11, 12, 13, 32])"

definition trimString :: "string \<Rightarrow> string" where
  "trimString s = rev (dropWhile isStrWhiteSpaceChar (rev (dropWhile isStrWhiteSpaceChar s)))"

definition digitOf :: "char \<Rightarrow> nat option" where
  "digitOf c =
     (let n = (of_char c :: nat) in
      if 48 \<le> n \<and> n \<le> 57 then Some (n - 48)
      else if 97 \<le> n \<and> n \<le> 102 then Some (n - 87)
      else if 65 \<le> n \<and> n \<le> 70 then Some (n - 55)
      else None)"

fun digitsValue :: "nat \<Rightarrow> nat \<Rightarrow> string \<Rightarrow> nat option" where
  "digitsValue radix acc [] = Some acc"
| "digitsValue radix acc (c # cs) =
     (case digitOf c of
        None \<Rightarrow> None
      | Some d \<Rightarrow> if d < radix then digitsValue radix (acc * radix + d) cs else None)"

definition digitsOpt :: "nat \<Rightarrow> string \<Rightarrow> nat option" where
  "digitsOpt radix s = (if s = [] then None else digitsValue radix 0 s)"

definition signedInteger :: "string \<Rightarrow> int option" where
  "signedInteger s =
     (case s of
        [] \<Rightarrow> None
      | c # cs \<Rightarrow>
          if c = CHR ''+'' then map_option int (digitsOpt 10 cs)
          else if c = CHR ''-'' then map_option (\<lambda>n. - int n) (digitsOpt 10 cs)
          else map_option int (digitsOpt 10 s))"

definition scaleByPowerOfTen :: "rat \<Rightarrow> int \<Rightarrow> rat" where
  "scaleByPowerOfTen x e = (if 0 \<le> e then x * 10 ^ nat e else x / 10 ^ nat (- e))"

definition isExponentIndicator :: "char \<Rightarrow> bool" where
  "isExponentIndicator c = (c = CHR ''e'' \<or> c = CHR ''E'')"

definition strUnsignedDecimalLiteral :: "string \<Rightarrow> number" where
  "strUnsignedDecimalLiteral s =
     (if s = ''Infinity'' then PosInf
      else
        let mantissa = takeWhile (\<lambda>c. \<not> isExponentIndicator c) s;
            exponentPart = dropWhile (\<lambda>c. \<not> isExponentIndicator c) s;
            intDigits = takeWhile (\<lambda>c. c \<noteq> CHR ''.'') mantissa;
            fracDigits = drop 1 (dropWhile (\<lambda>c. c \<noteq> CHR ''.'') mantissa);
            exponent = (if exponentPart = [] then Some 0 else signedInteger (drop 1 exponentPart))
        in
          if intDigits = [] \<and> fracDigits = [] then NaN
          else
            (case (digitsValue 10 0 intDigits, digitsValue 10 0 fracDigits, exponent) of
               (Some i, Some f, Some e) \<Rightarrow>
                 Fin (scaleByPowerOfTen (of_nat i + of_nat f / 10 ^ length fracDigits) e)
             | _ \<Rightarrow> NaN))"

definition negateNumber :: "number \<Rightarrow> number" where
  "negateNumber n =
     (case n of NaN \<Rightarrow> NaN | PosInf \<Rightarrow> NegInf | NegInf \<Rightarrow> PosInf | Fin r \<Rightarrow> Fin (- r))"

definition isRadixPrefix :: "string \<Rightarrow> char \<Rightarrow> char \<Rightarrow> bool" where
  "isRadixPrefix s lower upper = (take 2 s = [CHR ''0'', lower] \<or> take 2 s = [CHR ''0'', upper])"

definition nonDecimalIntegerLiteral :: "nat \<Rightarrow> string \<Rightarrow> number" where
  "nonDecimalIntegerLiteral radix s =
     (case digitsOpt radix s of None \<Rightarrow> NaN | Some n \<Rightarrow> Fin (of_nat n))"

definition StringToNumber :: "string \<Rightarrow> number" where
  "StringToNumber str =
     (let s = trimString str in
      if s = [] then Fin 0
      else if isRadixPrefix s (CHR ''x'') (CHR ''X'') then nonDecimalIntegerLiteral 16 (drop 2 s)
      else if isRadixPrefix s (CHR ''o'') (CHR ''O'') then nonDecimalIntegerLiteral 8 (drop 2 s)
      else if isRadixPrefix s (CHR ''b'') (CHR ''B'') then nonDecimalIntegerLiteral 2 (drop 2 s)
      else if hd s = CHR ''+'' then strUnsignedDecimalLiteral (tl s)
      else if hd s = CHR ''-'' then negateNumber (strUnsignedDecimalLiteral (tl s))
      else strUnsignedDecimalLiteral s)"

definition ToNumber :: "jsval \<Rightarrow> number" where
  "ToNumber v =
     (case v of Undefined \<Rightarrow> NaN | Null \<Rightarrow> Fin 0 | JNum n \<Rightarrow> n | JStr s \<Rightarrow> StringToNumber s)"

text \<open>Truthiness: what \<^verbatim>\<open>if (v)\<close>, \<^verbatim>\<open>v && ...\<close> and \<^verbatim>\<open>v || ...\<close> test.\<close>

definition truthyNumber :: "number \<Rightarrow> bool" where
  "truthyNumber n = (n \<noteq> NaN \<and> n \<noteq> Fin 0)"

definition ToBoolean :: "jsval \<Rightarrow> bool" where
  "ToBoolean v =
     (case v of Undefined \<Rightarrow> False | Null \<Rightarrow> False | JNum n \<Rightarrow> truthyNumber n | JStr s \<Rightarrow> s \<noteq> [])"

definition isNaN :: "number \<Rightarrow> bool" where
  "isNaN n = (n = NaN)"

definition geZero :: "number \<Rightarrow> bool" where
  "geZero n = (case n of NaN \<Rightarrow> False | PosInf \<Rightarrow> True | NegInf \<Rightarrow> False | Fin r \<Rightarrow> 0 \<le> r)"

section \<open>The order assembler\<close>

text \<open>
  The request as \<^verbatim>\<open>newOrder\<close> reads it. \<open>q_protocol\<close> is the \<^verbatim>\<open>protocol\<close> property: of
  type \<open>Protocol option\<close> in \<^verbatim>\<open>ctx.query\<close> (\<open>None\<close> when the request has no such property),
  of type \<open>Protocol\<close> once the default is in place. \<open>uniqId\<close> and \<open>userAddr\<close> are \<open>None\<close>
  when the request leaves them out.
\<close>

record 'p Query =
  side :: SIDE
  amount :: string
  feefactor :: jsval
  baseAddress :: string
  quoteAddress :: string
  uniqId :: "string option"
  userAddr :: "string option"
  q_protocol :: 'p

type_synonym QueryInterface = "Protocol Query"

text \<open>
  The objects of the module. Where two of them have a property of the same name, the
  fields of all but one carry a prefix (\<open>q_\<close>, \<open>tc_\<close>, \<open>cfg_\<close>, \<open>pr_\<close>, \<open>rb_\<close>); the order and
  the response keep the plain names. \<open>pr_rest\<close> stands for the properties of the price
  result that only \<^verbatim>\<open>constructQuoteResponse\<close> reads. The rate of a rate body is the decimal
  that \<^verbatim>\<open>rate.toString()\<close> denotes.
\<close>

record TokenConfig =
  tc_symbol :: string
  tc_feeFactor :: "number option"

record Config =
  cfg_feeFactor :: jsval
  wethContractAddress :: string
  mmProxyContractAddress :: string
  userProxyContractAddress :: string
  tokenlonExchangeContractAddress :: string
  exchangeContractAddress :: string
  orderExpirationSeconds :: int
  addressBookV5_PMM :: string
  addressBookV5_RFQ :: string
  addressBookV5_RFQV2 :: string

record Order =
  quoteId :: "string option"
  protocol :: Protocol
  makerAddress :: string
  makerAssetAmount :: BigNumber
  makerAssetAddress :: string
  takerAddress :: string
  takerAssetAmount :: BigNumber
  takerAssetAddress :: string
  expirationTimeSeconds :: int
  feeFactor :: number
  salt :: "string option"
  makerAssetData :: string
  takerAssetData :: string
  senderAddress :: string
  feeRecipientAddress :: string
  exchangeAddress :: string
  makerFee :: BigNumber
  takerFee :: BigNumber
  makerWalletSignature :: "string option"
  payload :: "string option"

record PriceResult =
  pr_quoteId :: string
  pr_payload :: "string option"
  pr_rest :: string

record RateBody =
  rb_rate :: BigNumber
  rb_minAmount :: number
  rb_maxAmount :: number
  rb_quoteId :: string
  rb_payload :: "string option"
  rb_salt :: "string option"
  rb_makerAddress :: "string option"

text \<open>
  What the source file imports from other modules of the repository and from the 0x
  library, taken as parameters. A function that may throw returns \<open>Inl\<close> of the
  message of the Error thrown; the ones without a sum type are taken to return.
  \<open>markerMakerConfig\<close> and \<open>tokenConfigsFromImtoken\<close> are the \<^verbatim>\<open>cacheResult\<close> of the two
  updaters of \<^verbatim>\<open>updaterStack\<close>. The validators return an error message or nothing.
\<close>

record Env =
  preprocessQuote :: "QueryInterface \<Rightarrow> string + QueryInterface"
  validateRequest :: "QueryInterface \<Rightarrow> string option"
  validateNewOrderRequest :: "string \<Rightarrow> string option \<Rightarrow> string option \<Rightarrow> string option"
  constructQuoteResponse :: "PriceResult \<Rightarrow> SIDE \<Rightarrow> string + RateBody"
  addQuoteIdPrefix :: "string \<Rightarrow> string"
  markerMakerConfig :: Config
  tokenConfigsFromImtoken :: "TokenConfig list"
  getSupportedTokens :: "Token list"
  getTokenByAddress :: "Token list \<Rightarrow> string \<Rightarrow> string + Token"
  getWethAddrIfIsEth :: "string \<Rightarrow> string \<Rightarrow> string"
  toBN :: "string \<Rightarrow> BigNumber"
  getTimestamp :: int
  encodeERC20AssetData :: "string \<Rightarrow> string"
  FEE_RECIPIENT_ADDRESS :: string

text \<open>
  The three statements that set \<^verbatim>\<open>fFactor\<close> in \<^verbatim>\<open>getOrderAndFeeFactor\<close>: the configured
  default or 10, then the maker token's configured factor, then the request's.
\<close>

definition fFactor :: "jsval \<Rightarrow> TokenConfig option \<Rightarrow> jsval \<Rightarrow> number" where
  "fFactor configFeeFactor foundTokenConfig queryFeefactor =
     (let f0 = (if truthyNumber (ToNumber configFeeFactor) then ToNumber configFeeFactor
                else Fin 10);
          f1 = (case foundTokenConfig of
                  None \<Rightarrow> f0
                | Some t \<Rightarrow>
                    (case tc_feeFactor t of
                       None \<Rightarrow> f0
                     | Some n \<Rightarrow> if truthyNumber n then n else f0))
      in
        if ToBoolean queryFeefactor \<and> \<not> isNaN (ToNumber queryFeefactor)
           \<and> geZero (ToNumber queryFeefactor)
        then ToNumber queryFeefactor
        else f1)"

text \<open>
  \<^verbatim>\<open>getOrderAndFeeFactor\<close>. \<^verbatim>\<open>toBN(0)\<close> is \<open>Finite 0\<close>, and the expiration is the sum of
  the two numbers that \<^verbatim>\<open>toBN\<close> wraps.
\<close>

definition getOrderAndFeeFactor ::
  "Env \<Rightarrow> QueryInterface \<Rightarrow> BigNumber \<Rightarrow> Token list \<Rightarrow> TokenConfig list \<Rightarrow> Config
     \<Rightarrow> string + Order" where
  "getOrderAndFeeFactor env query rate tokenList tokenConfigs config =
     (case getTokenByAddress env tokenList (baseAddress query) of
        Inl e \<Rightarrow> Inl e
      | Inr baseToken \<Rightarrow>
     (case getTokenByAddress env tokenList (quoteAddress query) of
        Inl e \<Rightarrow> Inl e
      | Inr quoteToken \<Rightarrow>
          let makerToken = (if side query = BUY then baseToken else quoteToken);
              takerToken = (if side query = BUY then quoteToken else baseToken);
              foundTokenConfig = find (\<lambda>t. tc_symbol t = symbol makerToken) tokenConfigs;
              amounts = extractAssetAmounts makerToken takerToken (side query) rate
                          (toBN env (amount query));
              makerAssetAddr = getWethAddrIfIsEth env (contractAddress makerToken)
                                 (wethContractAddress config);
              takerAssetAddr = (if q_protocol query = RFQV2 then contractAddress takerToken
                                else getWethAddrIfIsEth env (contractAddress takerToken)
                                       (wethContractAddress config))
          in Inr \<lparr>
               quoteId = uniqId query,
               protocol = q_protocol query,
               makerAddress = toLowerCase (mmProxyContractAddress config),
               makerAssetAmount = fst amounts,
               makerAssetAddress = makerAssetAddr,
               takerAddress = userProxyContractAddress config,
               takerAssetAmount = snd amounts,
               takerAssetAddress = takerAssetAddr,
               expirationTimeSeconds = getTimestamp env + orderExpirationSeconds config,
               feeFactor = fFactor (cfg_feeFactor config) foundTokenConfig (feefactor query),
               salt = None,
               makerAssetData = encodeERC20AssetData env makerAssetAddr,
               takerAssetData = encodeERC20AssetData env takerAssetAddr,
               senderAddress = toLowerCase (tokenlonExchangeContractAddress config),
               feeRecipientAddress = toLowerCase (FEE_RECIPIENT_ADDRESS env),
               exchangeAddress = toLowerCase (exchangeContractAddress config),
               makerFee = Finite 0,
               takerFee = Finite 0,
               makerWalletSignature = None,
               payload = None\<rparr>))"

section \<open>The memoized base-token lookup\<close>

text \<open>
  \<^verbatim>\<open>_getBaseTokenByAddress\<close> and its lodash \<^verbatim>\<open>memoize\<close>: with no resolver the cache key is
  the first argument alone, and a cached result, \<^verbatim>\<open>undefined\<close> included, is returned
  without a call. The cache is the state \<^verbatim>\<open>memoize\<close> keeps between calls.
\<close>

type_synonym Cache = "string \<Rightarrow> Token option option"

definition plain_getBaseTokenByAddress :: "string \<Rightarrow> Token list \<Rightarrow> Token option" where
  "plain_getBaseTokenByAddress baseTokenAddr tokenList =
     find (\<lambda>token. toLowerCase (contractAddress token) = baseTokenAddr) tokenList"

definition getBaseTokenByAddress ::
  "Cache \<Rightarrow> string \<Rightarrow> Token list \<Rightarrow> Token option \<times> Cache" where
  "getBaseTokenByAddress cache baseTokenAddr tokenList =
     (case cache baseTokenAddr of
        Some cached \<Rightarrow> (cached, cache)
      | None \<Rightarrow>
          let r = plain_getBaseTokenByAddress baseTokenAddr tokenList
          in (r, cache(baseTokenAddr \<mapsto> r)))"

section \<open>newOrder\<close>

record Response =
  result :: "bool option"
  exchangeable :: "bool option"
  rate :: "BigNumber option"
  minAmount :: "number option"
  maxAmount :: "number option"
  order :: "Order option"
  message :: "string option"

text \<open>
  The five builders of \<^verbatim>\<open>../signer\<close>, parameters as well; the last argument of the three
  signing builders is the object \<^verbatim>\<open>{ signingUrl, salt }\<close>.
\<close>

record Builders =
  buildAMMV1Order :: "Order \<Rightarrow> string option \<Rightarrow> string \<Rightarrow> string + Order"
  buildAMMV2Order :: "Order \<Rightarrow> string option \<Rightarrow> string option \<Rightarrow> string \<Rightarrow> string + Order"
  buildSignedOrder ::
    "string \<Rightarrow> Order \<Rightarrow> string \<Rightarrow> nat \<Rightarrow> string \<Rightarrow> string \<times> string option \<Rightarrow> string + Order"
  buildRFQV1SignedOrder ::
    "string \<Rightarrow> Order \<Rightarrow> string \<Rightarrow> nat \<Rightarrow> string \<Rightarrow> string \<Rightarrow> string \<times> string option
       \<Rightarrow> string + Order"
  buildRFQV2SignedOrder ::
    "string \<Rightarrow> Order \<Rightarrow> string \<Rightarrow> nat \<Rightarrow> string \<Rightarrow> string \<Rightarrow> string
       \<Rightarrow> string \<times> string option \<Rightarrow> string + Order"

text \<open>The context \<^verbatim>\<open>ctx\<close>; \<open>getPrice\<close> is the method of \<^verbatim>\<open>ctx.quoter\<close>.\<close>

record Ctx =
  getPrice :: "QueryInterface \<Rightarrow> string + PriceResult"
  signer :: string
  chainID :: nat
  walletType :: string
  signingUrl :: string
  permitType :: string
  ctx_query :: "Protocol option Query"

text \<open>What \<^verbatim>\<open>newOrder\<close> returns: the object \<^verbatim>\<open>resp\<close>, or the string \<^verbatim>\<open>e.message\<close>.\<close>

datatype ReturnValue = ReturnedObject Response | ReturnedString string

text \<open>
  The message of the TypeError that reading a property of \<^verbatim>\<open>undefined\<close> throws; its text
  is the engine's.
\<close>

definition TypeError :: string where
  "TypeError = ''TypeError: cannot read properties of undefined''"

definition requestMarketMaker ::
  "Env \<Rightarrow> (QueryInterface \<Rightarrow> string + PriceResult) \<Rightarrow> QueryInterface \<Rightarrow> string + RateBody" where
  "requestMarketMaker env quoter query =
     (case quoter query of
        Inl e \<Rightarrow> Inl e
      | Inr priceResult \<Rightarrow>
          (case constructQuoteResponse env priceResult (side query) of
             Inl e \<Rightarrow> Inl e
           | Inr r \<Rightarrow>
               Inr (r\<lparr>rb_quoteId := addQuoteIdPrefix env (pr_quoteId priceResult),
                      rb_payload := pr_payload priceResult\<rparr>)))"

text \<open>
  \<^verbatim>\<open>const req = { protocol: Protocol.PMMV5, ...ctx.query }\<close>: the properties of the request,
  and the default where it has no \<^verbatim>\<open>protocol\<close>.
\<close>

definition req :: "Protocol option Query \<Rightarrow> QueryInterface" where
  "req q =
     \<lparr>side = side q, amount = amount q, feefactor = feefactor q, baseAddress = baseAddress q,
      quoteAddress = quoteAddress q, uniqId = uniqId q, userAddr = userAddr q,
      q_protocol = (case q_protocol q of None \<Rightarrow> PMMV5 | Some p \<Rightarrow> p)\<rparr>"

text \<open>
  \<^verbatim>\<open>if (errMsg) throw new ValidationError(errMsg)\<close>: the message thrown, if any; the
  message of a ValidationError is the string it is made from.
\<close>

definition thrownValidationError :: "string option \<Rightarrow> string option" where
  "thrownValidationError errMsg =
     (case errMsg of None \<Rightarrow> None | Some m \<Rightarrow> if m = [] then None else Some m)"

text \<open>
  The \<^verbatim>\<open>try\<close> block of \<^verbatim>\<open>newOrder\<close> in three parts: the statements before the
  \<^verbatim>\<open>switch\<close> (\<open>beforeSwitch\<close>: the query, the rate body, the configuration, the token list
  and the assembled order), the \<^verbatim>\<open>switch\<close> (\<open>switchProtocol\<close>: \<^verbatim>\<open>resp\<close> with the branch's
  order), and the two assignments after it (in \<open>tryBlock\<close>). \<open>Inl\<close> holds the message of
  what was thrown.
\<close>

definition beforeSwitch ::
  "Env \<Rightarrow> Ctx \<Rightarrow> QueryInterface
     \<Rightarrow> string + (QueryInterface \<times> RateBody \<times> Config \<times> Token list \<times> Order)" where
  "beforeSwitch env ctx rq =
     (case preprocessQuote env rq of
        Inl e \<Rightarrow> Inl e
      | Inr query \<Rightarrow>
     (case thrownValidationError (validateRequest env query) of
        Some m \<Rightarrow> Inl m
      | None \<Rightarrow>
     (case thrownValidationError
             (validateNewOrderRequest env (amount query) (uniqId query) (userAddr query)) of
        Some m \<Rightarrow> Inl m
      | None \<Rightarrow>
     (case requestMarketMaker env (getPrice ctx) query of
        Inl e \<Rightarrow> Inl e
      | Inr rateBody \<Rightarrow>
          let config = markerMakerConfig env;
              tokenConfigs = tokenConfigsFromImtoken env;
              tokenList = getSupportedTokens env
          in
            (case getOrderAndFeeFactor env query (rb_rate rateBody) tokenList tokenConfigs
                    config of
               Inl e \<Rightarrow> Inl e
             | Inr ord \<Rightarrow> Inr (query, rateBody, config, tokenList, ord))))))"

definition switchProtocol ::
  "Builders \<Rightarrow> Cache \<Rightarrow> Ctx \<Rightarrow> QueryInterface \<Rightarrow> RateBody \<Rightarrow> Config \<Rightarrow> Token list \<Rightarrow> Order
     \<Rightarrow> Cache \<times> (string + Response)" where
  "switchProtocol bs cache ctx query rateBody config tokenList ord =
     (let resp = \<lparr>result = None, exchangeable = None, rate = Some (rb_rate rateBody),
                   minAmount = Some (rb_minAmount rateBody),
                   maxAmount = Some (rb_maxAmount rateBody), order = None, message = None\<rparr>
      in
        case q_protocol query of
          AMMV1 \<Rightarrow>
            (case getBaseTokenByAddress cache (toLowerCase (baseAddress query)) tokenList of
               (None, cache') \<Rightarrow> (cache', Inl TypeError)
             | (Some baseToken, cache') \<Rightarrow>
                 (cache',
                  case buildAMMV1Order bs ord (rb_makerAddress rateBody)
                         (wethContractAddress config) of
                    Inl e \<Rightarrow> Inl e
                  | Inr built \<Rightarrow>
                      Inr (resp\<lparr>minAmount := Some (minTradeAmount baseToken),
                                 maxAmount := Some (maxTradeAmount baseToken),
                                 order := Some built\<rparr>)))
        | AMMV2 \<Rightarrow>
            (case getBaseTokenByAddress cache (toLowerCase (baseAddress query)) tokenList of
               (None, cache') \<Rightarrow> (cache', Inl TypeError)
             | (Some baseToken, cache') \<Rightarrow>
                 (cache',
                  case buildAMMV2Order bs ord (rb_payload rateBody) (rb_makerAddress rateBody)
                         (wethContractAddress config) of
                    Inl e \<Rightarrow> Inl e
                  | Inr built \<Rightarrow>
                      Inr (resp\<lparr>minAmount := Some (minTradeAmount baseToken),
                                 maxAmount := Some (maxTradeAmount baseToken),
                                 order := Some built\<rparr>)))
        | PMMV5 \<Rightarrow>
            (cache,
             case userAddr query of
               None \<Rightarrow> Inl TypeError
             | Some u \<Rightarrow>
                 (case buildSignedOrder bs (signer ctx) ord (toLowerCase u) (chainID ctx)
                         (addressBookV5_PMM config) (signingUrl ctx, rb_salt rateBody) of
                    Inl e \<Rightarrow> Inl e
                  | Inr built \<Rightarrow> Inr (resp\<lparr>order := Some built\<rparr>)))
        | RFQV1 \<Rightarrow>
            (cache,
             case userAddr query of
               None \<Rightarrow> Inl TypeError
             | Some u \<Rightarrow>
                 (case buildRFQV1SignedOrder bs (signer ctx) ord (toLowerCase u) (chainID ctx)
                         (addressBookV5_RFQ config) (walletType ctx)
                         (signingUrl ctx, rb_salt rateBody) of
                    Inl e \<Rightarrow> Inl e
                  | Inr built \<Rightarrow> Inr (resp\<lparr>order := Some built\<rparr>)))
        | RFQV2 \<Rightarrow>
            (cache,
             case userAddr query of
               None \<Rightarrow> Inl TypeError
             | Some u \<Rightarrow>
                 (case buildRFQV2SignedOrder bs (signer ctx) ord (toLowerCase u) (chainID ctx)
                         (addressBookV5_RFQV2 config) (walletType ctx) (permitType ctx)
                         (signingUrl ctx, rb_salt rateBody) of
                    Inl e \<Rightarrow> Inl e
                  | Inr built \<Rightarrow> Inr (resp\<lparr>order := Some built\<rparr>)))
        | Other t \<Rightarrow> (cache, Inl (''Unrecognized protocol: '' @ t)))"

definition tryBlock :: "Builders \<Rightarrow> Env \<Rightarrow> Cache \<Rightarrow> Ctx \<Rightarrow> Cache \<times> (string + Response)" where
  "tryBlock bs env cache ctx =
     (case beforeSwitch env ctx (req (ctx_query ctx)) of
        Inl e \<Rightarrow> (cache, Inl e)
      | Inr (query, rateBody, config, tokenList, ord) \<Rightarrow>
          (case switchProtocol bs cache ctx query rateBody config tokenList ord of
             (cache', Inl e) \<Rightarrow> (cache', Inl e)
           | (cache', Inr resp) \<Rightarrow>
               (cache',
                case order resp of
                  None \<Rightarrow> Inl TypeError
                | Some built \<Rightarrow>
                    Inr (resp\<lparr>order := Some (built\<lparr>quoteId := Some (rb_quoteId rateBody),
                                                      protocol := q_protocol query\<rparr>)\<rparr>))))"

text \<open>
  \<^verbatim>\<open>newOrder\<close>: the cache of the memoized lookup after the call, the value assigned to
  \<^verbatim>\<open>ctx.body\<close>, and the value returned.
\<close>

definition newOrder :: "Builders \<Rightarrow> Env \<Rightarrow> Cache \<Rightarrow> Ctx \<Rightarrow> Cache \<times> Response \<times> ReturnValue" where
  "newOrder bs env cache ctx =
     (case tryBlock bs env cache ctx of
        (cache', Inr resp) \<Rightarrow>
          (cache', resp\<lparr>result := Some True, exchangeable := Some True\<rparr>, ReturnedObject resp)
      | (cache', Inl msg) \<Rightarrow>
          (cache',
           \<lparr>result = Some False, exchangeable = Some False, rate = None, minAmount = None,
            maxAmount = None, order = None, message = Some msg\<rparr>,
           ReturnedString msg))"

section \<open>Notions the statements use\<close>

text \<open>
  The two conditional expressions of \<^verbatim>\<open>getOrderAndFeeFactor\<close> that pick the maker and
  the taker token from the side.
\<close>

definition makerTokenOf :: "SIDE \<Rightarrow> Token \<Rightarrow> Token \<Rightarrow> Token" where
  "makerTokenOf sd baseToken quoteToken = (if sd = BUY then baseToken else quoteToken)"

definition takerTokenOf :: "SIDE \<Rightarrow> Token \<Rightarrow> Token \<Rightarrow> Token" where
  "takerTokenOf sd baseToken quoteToken = (if sd = BUY then quoteToken else baseToken)"

text \<open>
  The rate that two amounts in base units imply: maker asset per taker asset, each in
  token units.
\<close>

definition impliedRate :: "nat \<Rightarrow> nat \<Rightarrow> rat \<Rightarrow> rat \<Rightarrow> rat" where
  "impliedRate makerDecimals takerDecimals makerAmount takerAmount =
     (makerAmount / 10 ^ makerDecimals) / (takerAmount / 10 ^ takerDecimals)"

text \<open>The object that the \<^verbatim>\<open>catch\<close> block assigns to \<^verbatim>\<open>ctx.body\<close>.\<close>

definition failureBody :: "string \<Rightarrow> Response" where
  "failureBody msg = \<lparr>result = Some False, exchangeable = Some False, rate = None,
     minAmount = None, maxAmount = None, order = None, message = Some msg\<rparr>"

section \<open>A configuration, a registry and collaborators to evaluate at\<close>

definition tokenA :: Token where
  "tokenA = \<lparr>symbol = ''TOKA'', contractAddress = ''0xaa01'', decimal = 18, precision = 4,
     minTradeAmount = Fin 1, maxTradeAmount = Fin 100\<rparr>"

definition tokenB :: Token where
  "tokenB = \<lparr>symbol = ''TOKB'', contractAddress = ''0xbb02'', decimal = 6, precision = 6,
     minTradeAmount = Fin 5, maxTradeAmount = Fin 5000\<rparr>"

definition tokenC :: Token where
  "tokenC = \<lparr>symbol = ''TOKC'', contractAddress = ''0xCc03'', decimal = 8, precision = 8,
     minTradeAmount = Fin 1, maxTradeAmount = Fin 9\<rparr>"

definition refreshedTokenA :: Token where
  "refreshedTokenA = tokenA\<lparr>minTradeAmount := Fin 2, maxTradeAmount := Fin 50\<rparr>"

definition nativeToken :: Token where
  "nativeToken = \<lparr>symbol = ''ETH'', contractAddress = ''0x0000'', decimal = 18, precision = 4,
     minTradeAmount = Fin 1, maxTradeAmount = Fin 10\<rparr>"

definition exampleTokens :: "Token list" where
  "exampleTokens = [tokenA, tokenB, nativeToken]"

definition exampleConfig :: Config where
  "exampleConfig = \<lparr>cfg_feeFactor = JNum (Fin 10), wethContractAddress = ''0xc0de'',
     mmProxyContractAddress = ''0xAB01'', userProxyContractAddress = ''0xCD02'',
     tokenlonExchangeContractAddress = ''0xEF03'', exchangeContractAddress = ''0xEC04'',
     orderExpirationSeconds = 600, addressBookV5_PMM = ''pmm'', addressBookV5_RFQ = ''rfq'',
     addressBookV5_RFQV2 = ''rfqv2''\<rparr>"

text \<open>
  Modelled from the spec: \<^verbatim>\<open>getWethAddrIfIsEth\<close> is not in the source file. The spec has
  the wrapped-native address stand in for a token address that equals the native
  sentinel, here the first argument.
\<close>

definition wethAddrIfIsEth :: "string \<Rightarrow> string \<Rightarrow> string \<Rightarrow> string" where
  "wethAddrIfIsEth sentinel address wethAddress =
     (if address = sentinel then wethAddress else address)"

definition lookupToken :: "Token list \<Rightarrow> string \<Rightarrow> string + Token" where
  "lookupToken tokens address =
     (case find (\<lambda>t. toLowerCase (contractAddress t) = toLowerCase address) tokens of
        None \<Rightarrow> Inl ''token not found''
      | Some t \<Rightarrow> Inr t)"

definition exampleRateBody :: RateBody where
  "exampleRateBody = \<lparr>rb_rate = Finite 200, rb_minAmount = Fin 2, rb_maxAmount = Fin 20,
     rb_quoteId = ''unset'', rb_payload = None, rb_salt = Some ''salt'',
     rb_makerAddress = Some ''0xmaker''\<rparr>"

definition decimalOf :: "string \<Rightarrow> BigNumber" where
  "decimalOf s = (case StringToNumber s of Fin r \<Rightarrow> Finite r | _ \<Rightarrow> NonFinite)"

definition exampleEnv :: Env where
  "exampleEnv = \<lparr>
     preprocessQuote = Inr,
     validateRequest = (\<lambda>q. None),
     validateNewOrderRequest =
       (\<lambda>a u addr. if u = None then Some ''uniqId is required'' else None),
     constructQuoteResponse = (\<lambda>p s. Inr exampleRateBody),
     addQuoteIdPrefix = (\<lambda>s. ''TD-'' @ s),
     markerMakerConfig = exampleConfig,
     tokenConfigsFromImtoken = [\<lparr>tc_symbol = ''TOKB'', tc_feeFactor = Some (Fin 25)\<rparr>],
     getSupportedTokens = exampleTokens,
     getTokenByAddress = lookupToken,
     getWethAddrIfIsEth = wethAddrIfIsEth ''0x0000'',
     toBN = decimalOf,
     getTimestamp = 1000,
     encodeERC20AssetData = (\<lambda>a. ''0xf47261b0'' @ a),
     FEE_RECIPIENT_ADDRESS = ''0xFEE5''\<rparr>"

text \<open>Builders that sign and set \<open>quoteId\<close> and \<open>protocol\<close> to values of their own.\<close>

definition signedBy :: "string \<Rightarrow> Order \<Rightarrow> Order" where
  "signedBy who ord =
     ord\<lparr>quoteId := Some ''builder'', protocol := Other who,
         makerWalletSignature := Some who\<rparr>"

definition exampleBuilders :: Builders where
  "exampleBuilders = \<lparr>
     buildAMMV1Order = (\<lambda>ord maker weth. Inr (signedBy ''ammv1'' ord)),
     buildAMMV2Order = (\<lambda>ord pl maker weth. Inr (signedBy ''ammv2'' ord)),
     buildSignedOrder = (\<lambda>sg ord u c book opts. Inr (signedBy ''pmmv5'' ord)),
     buildRFQV1SignedOrder = (\<lambda>sg ord u c book w opts. Inr (signedBy ''rfqv1'' ord)),
     buildRFQV2SignedOrder = (\<lambda>sg ord u c book w p opts. Inr (signedBy ''rfqv2'' ord))\<rparr>"


definition exampleQuery :: "Protocol option Query" where
  "exampleQuery = \<lparr>side = SELL, amount = ''10'', feefactor = Undefined,
     baseAddress = ''0xAA01'', quoteAddress = ''0xbb02'', uniqId = Some ''u1'',
     userAddr = Some ''0xBEEF'', q_protocol = None\<rparr>"

definition examplePriceResult :: PriceResult where
  "examplePriceResult = \<lparr>pr_quoteId = ''q7'', pr_payload = Some ''pl'', pr_rest = []\<rparr>"

definition exampleCtx :: Ctx where
  "exampleCtx = \<lparr>
     getPrice = (\<lambda>q. Inr examplePriceResult),
     signer = ''signer'', chainID = 1, walletType = ''eoa'', signingUrl = ''url'',
     permitType = ''permit'', ctx_query = exampleQuery\<rparr>"

definition emptyCache :: Cache where
  "emptyCache = (\<lambda>k. None)"

definition perToken25 :: TokenConfig where
  "perToken25 = \<lparr>tc_symbol = ''TOKB'', tc_feeFactor = Some (Fin 25)\<rparr>"

definition perToken0 :: TokenConfig where
  "perToken0 = \<lparr>tc_symbol = ''TOKB'', tc_feeFactor = Some (Fin 0)\<rparr>"

definition buyNativeQuery :: "Protocol \<Rightarrow> QueryInterface" where
  "buyNativeQuery p = \<lparr>side = BUY, amount = ''10'', feefactor = Undefined,
     baseAddress = ''0x0000'', quoteAddress = ''0x0000'', uniqId = Some ''u1'',
     userAddr = Some ''0xBEEF'', q_protocol = p\<rparr>"

definition buyTokenCQuery :: QueryInterface where
  "buyTokenCQuery = \<lparr>side = BUY, amount = ''10'', feefactor = Undefined,
     baseAddress = ''0xaa01'', quoteAddress = ''0xcc03'', uniqId = Some ''u1'',
     userAddr = Some ''0xBEEF'', q_protocol = RFQV2\<rparr>"



definition ammCtx :: Ctx where
  "ammCtx = exampleCtx\<lparr>ctx_query := exampleQuery\<lparr>q_protocol := Some AMMV1\<rparr>\<rparr>"

definition rejectingEnv :: Env where
  "rejectingEnv = exampleEnv\<lparr>preprocessQuote := (\<lambda>q. Inl ''bad request'')\<rparr>"




section \<open>Truncation\<close>

lemma truncInt_nonneg:
  "0 \<le> y \<Longrightarrow> 0 \<le> truncInt y \<and> of_int (truncInt y) \<le> y \<and> y < of_int (truncInt y) + 1"
  unfolding truncInt_def by (simp add: floor_less_iff) linarith

lemma truncateTo_nonneg:
  assumes "0 \<le> x"
  shows "0 \<le> truncateTo dp x" and "truncateTo dp x \<le> x" and "x < truncateTo dp x + 1 / 10 ^ dp"
proof -
  have p: "(0::rat) < 10 ^ dp" by simp
  from assms have y: "0 \<le> x * 10 ^ dp" by simp
  note t = truncInt_nonneg [OF y]
  from t show "0 \<le> truncateTo dp x"
    by (simp add: truncateTo_def)
  from t show "truncateTo dp x \<le> x"
    using p by (simp add: truncateTo_def pos_divide_le_eq)
  from t have "x * 10 ^ dp < (truncateTo dp x + 1 / 10 ^ dp) * 10 ^ dp"
    using p by (simp add: truncateTo_def distrib_right)
  then show "x < truncateTo dp x + 1 / 10 ^ dp"
    using p by simp
qed

lemma truncateTo_third: "truncateTo 6 (1 / 3) = 333333 / 1000000"
  by code_simp

lemma truncateTo_one: "truncateTo 4 1 = 1"
  by code_simp

lemma truncateTo_2000: "truncateTo 6 2000 = 2000"
  by code_simp

lemma truncateTo_ten: "truncateTo 4 10 = 10"
  by code_simp

section \<open>The amount calculator: what it computes\<close>

text \<open>
  C1. For a finite amount \<open>a\<close> and rate \<open>r\<close>: on side BUY the maker amount is \<open>a\<close> cut to
  the maker token's display precision and multiplied by ten to the maker token's
  decimals, and the taker amount is \<open>a / r\<close> cut to \<open>findSuitablePrecision\<close> of the taker
  token's decimals and multiplied by ten to the taker token's decimals (a zero rate
  leaves a non-finite value); on side SELL the maker amount is \<open>a * r\<close> cut to
  \<open>findSuitablePrecision\<close> of the maker token's decimals and scaled, and the taker amount
  is \<open>a\<close> cut to the taker token's display precision and scaled. \<open>findSuitablePrecision\<close>
  is 6 below 8 decimals and 8 from 8 decimals on.
\<close>

theorem extractAssetAmounts_computes:
  "extractAssetAmounts makerToken takerToken BUY (Finite r) (Finite a) =
     (Finite (truncateTo (precision makerToken) a * 10 ^ decimal makerToken),
      if r = 0 then NonFinite
      else Finite (truncateTo (findSuitablePrecision (decimal takerToken)) (a / r)
                     * 10 ^ decimal takerToken))
   \<and> extractAssetAmounts makerToken takerToken SELL (Finite r) (Finite a) =
     (Finite (truncateTo (findSuitablePrecision (decimal makerToken)) (a * r)
                * 10 ^ decimal makerToken),
      Finite (truncateTo (precision takerToken) a * 10 ^ decimal takerToken))
   \<and> findSuitablePrecision d = (if d < 8 then 6 else 8)"
  by (simp add: extractAssetAmounts_def fromUnitToDecimalBN_def toFixed_def times_bn_def
      dividedBy_def findSuitablePrecision_def TRUNCATE_PRECISION_def)

text \<open>
  At amount 1 and rate 3 on side BUY, and at amount 10 and rate 200 on side SELL, with an
  18-decimal and a 6-decimal token.
\<close>

theorem extractAssetAmounts_computes_witness:
  "extractAssetAmounts tokenA tokenB BUY (Finite 3) (Finite 1) =
     (Finite 1000000000000000000, Finite 333333)
   \<and> extractAssetAmounts tokenB tokenA SELL (Finite 200) (Finite 10) =
     (Finite 2000000000, Finite 10000000000000000000)
   \<and> findSuitablePrecision 7 = 6 \<and> findSuitablePrecision 8 = 8"
  using extractAssetAmounts_computes [of tokenA tokenB 3 1 7]
    extractAssetAmounts_computes [of tokenB tokenA 200 10 8]
  by (simp add: tokenA_def tokenB_def findSuitablePrecision_def TRUNCATE_PRECISION_def
      truncateTo_third truncateTo_one truncateTo_2000 truncateTo_ten)

section \<open>The amount calculator: the direction of the cut\<close>

text \<open>
  C2 as stated fails. A BUY of amount 1 at rate 3 gives 1 maker token (18 decimals) for
  0.333333 taker token (6 decimals): the implied rate, maker per taker, is above 3, and
  the maker amount is more than the taker amount times the rate.
\<close>

theorem buy_truncation_counterexample:
  "extractAssetAmounts tokenA tokenB BUY (Finite 3) (Finite 1) =
     (Finite 1000000000000000000, Finite 333333)
   \<and> \<not> impliedRate (decimal tokenA) (decimal tokenB) 1000000000000000000 333333 \<le> 3
   \<and> \<not> (1000000000000000000 / 10 ^ decimal tokenA \<le> 333333 / 10 ^ decimal tokenB * (3::rat))"
  by (simp add: extractAssetAmounts_def fromUnitToDecimalBN_def toFixed_def times_bn_def
      dividedBy_def findSuitablePrecision_def TRUNCATE_PRECISION_def impliedRate_def
      tokenA_def tokenB_def truncateTo_third truncateTo_one)

text \<open>
  C2, amended. For a BUY with positive rate \<open>r\<close> and positive amount \<open>a\<close> the cut is
  toward zero: both amounts are finite and not negative, the maker amount is at most
  \<open>a\<close> in base units, the taker amount is at most \<open>a / r\<close> in base units and short of it
  by less than one unit of the last digit kept, so the taker amount times \<open>r\<close> never
  exceeds \<open>a\<close> in the taker token's base units.
\<close>

theorem buy_truncation_direction:
  assumes "0 < r" and "0 < a"
  shows "\<exists>m t. extractAssetAmounts makerToken takerToken BUY (Finite r) (Finite a)
             = (Finite m, Finite t)
           \<and> 0 \<le> m \<and> m \<le> a * 10 ^ decimal makerToken
           \<and> 0 \<le> t \<and> t \<le> a / r * 10 ^ decimal takerToken
           \<and> a / r * 10 ^ decimal takerToken
               < t + 10 ^ decimal takerToken / 10 ^ findSuitablePrecision (decimal takerToken)
           \<and> t * r \<le> a * 10 ^ decimal takerToken"
proof -
  let ?m = "truncateTo (precision makerToken) a * 10 ^ decimal makerToken"
  let ?p = "findSuitablePrecision (decimal takerToken)"
  let ?t = "truncateTo ?p (a / r) * 10 ^ decimal takerToken"
  from assms have a0: "0 \<le> a" and q0: "0 \<le> a / r" by simp_all
  have eq: "extractAssetAmounts makerToken takerToken BUY (Finite r) (Finite a)
              = (Finite ?m, Finite ?t)"
    using assms by (simp add: extractAssetAmounts_def fromUnitToDecimalBN_def toFixed_def
        times_bn_def dividedBy_def)
  have m0: "0 \<le> ?m" using truncateTo_nonneg(1) [OF a0] by simp
  have m1: "?m \<le> a * 10 ^ decimal makerToken"
    by (rule mult_right_mono [OF truncateTo_nonneg(2) [OF a0]]) simp
  have t0: "0 \<le> ?t" using truncateTo_nonneg(1) [OF q0] by simp
  have t1: "?t \<le> a / r * 10 ^ decimal takerToken"
    by (rule mult_right_mono [OF truncateTo_nonneg(2) [OF q0]]) simp
  have "a / r * 10 ^ decimal takerToken
          < (truncateTo ?p (a / r) + 1 / 10 ^ ?p) * 10 ^ decimal takerToken"
    by (rule mult_strict_right_mono [OF truncateTo_nonneg(3) [OF q0]]) simp
  then have t2: "a / r * 10 ^ decimal takerToken < ?t + 10 ^ decimal takerToken / 10 ^ ?p"
    by (simp add: distrib_right)
  from assms(1) have r0: "0 \<le> r" by simp
  have "?t * r \<le> a / r * 10 ^ decimal takerToken * r"
    by (rule mult_right_mono [OF t1 r0])
  then have t3: "?t * r \<le> a * 10 ^ decimal takerToken"
    using assms(1) by simp
  from eq m0 m1 t0 t1 t2 t3 show ?thesis by blast
qed

theorem buy_truncation_direction_witness:
  "(0::rat) < 3 \<and> (0::rat) < 1
   \<and> extractAssetAmounts tokenA tokenB BUY (Finite 3) (Finite 1)
       = (Finite 1000000000000000000, Finite 333333)
   \<and> (333333::rat) \<le> 1 / 3 * 10 ^ decimal tokenB
   \<and> (333333::rat) * 3 \<le> 1 * 10 ^ decimal tokenB"
  using buy_truncation_direction [of 3 1 tokenA tokenB]
  by (simp add: extractAssetAmounts_def fromUnitToDecimalBN_def toFixed_def times_bn_def
      dividedBy_def findSuitablePrecision_def TRUNCATE_PRECISION_def
      tokenA_def tokenB_def truncateTo_third truncateTo_one)

section \<open>The assembled order: its fields\<close>

lemma toLowerCase_idem: "toLowerCase (toLowerCase s) = toLowerCase s"
proof -
  have "lowerChar (lowerChar c) = lowerChar c" for c
    by (simp add: lowerChar_def Let_def)
  then show ?thesis by (simp add: toLowerCase_def)
qed

lemma isLowerCase_toLowerCase: "isLowerCase (toLowerCase s)"
  by (simp add: isLowerCase_def toLowerCase_idem)

lemma getOrderAndFeeFactor_Inr:
  assumes "getOrderAndFeeFactor env query rt tokenList tokenConfigs config = Inr ord"
  shows "\<exists>baseToken quoteToken.
           getTokenByAddress env tokenList (baseAddress query) = Inr baseToken
         \<and> getTokenByAddress env tokenList (quoteAddress query) = Inr quoteToken
         \<and> makerAssetAddress ord =
             getWethAddrIfIsEth env
               (contractAddress (makerTokenOf (side query) baseToken quoteToken))
               (wethContractAddress config)
         \<and> takerAssetAddress ord =
             (if q_protocol query = RFQV2
              then contractAddress (takerTokenOf (side query) baseToken quoteToken)
              else getWethAddrIfIsEth env
                     (contractAddress (takerTokenOf (side query) baseToken quoteToken))
                     (wethContractAddress config))
         \<and> feeFactor ord =
             fFactor (cfg_feeFactor config)
               (find (\<lambda>t. tc_symbol t
                            = symbol (makerTokenOf (side query) baseToken quoteToken))
                  tokenConfigs)
               (feefactor query)
         \<and> makerAddress ord = toLowerCase (mmProxyContractAddress config)
         \<and> takerAddress ord = userProxyContractAddress config
         \<and> senderAddress ord = toLowerCase (tokenlonExchangeContractAddress config)
         \<and> feeRecipientAddress ord = toLowerCase (FEE_RECIPIENT_ADDRESS env)
         \<and> exchangeAddress ord = toLowerCase (exchangeContractAddress config)
         \<and> quoteId ord = uniqId query \<and> protocol ord = q_protocol query"
  using assms
  by (auto simp add: getOrderAndFeeFactor_def Let_def makerTokenOf_def takerTokenOf_def
      split: sum.splits)

section \<open>The fee factor\<close>

lemma StringToNumber_30: "StringToNumber ''30'' = Fin 30"
  by code_simp

lemma StringToNumber_minus1: "StringToNumber ''-1'' = Fin (- 1)"
  by code_simp

lemma StringToNumber_0: "StringToNumber ''0'' = Fin 0"
  by code_simp

text \<open>
  C3 as stated fails. A per-token factor that is present and 0 is not used: with the
  configured default 10 and no factor in the request the result is 10.
\<close>

theorem fFactor_counterexample:
  "tc_feeFactor perToken0 = Some (Fin 0)
   \<and> fFactor (JNum (Fin 10)) (Some perToken0) Undefined \<noteq> Fin 0
   \<and> fFactor (JNum (Fin 10)) (Some perToken0) Undefined = Fin 10
   \<and> (case getOrderAndFeeFactor exampleEnv (req exampleQuery) (Finite 200) exampleTokens
             [perToken0] exampleConfig of
        Inr ord \<Rightarrow> feeFactor ord = Fin 10
      | Inl e \<Rightarrow> False)"
proof -
  have "fFactor (JNum (Fin 10)) (Some perToken0) Undefined = Fin 10"
    by (simp add: fFactor_def perToken0_def ToNumber_def ToBoolean_def truthyNumber_def)
  moreover have "(case getOrderAndFeeFactor exampleEnv (req exampleQuery) (Finite 200)
                         exampleTokens [perToken0] exampleConfig of
                    Inr ord \<Rightarrow> feeFactor ord = Fin 10
                  | Inl e \<Rightarrow> False)"
    by code_simp
  ultimately show ?thesis by (simp add: perToken0_def)
qed

text \<open>
  C3, amended. The request's factor is used whenever it is truthy (a non-empty string, a
  number other than 0 and NaN) and converts to a number that is not NaN and not
  negative; otherwise the maker token's configured factor if there is one other than 0
  and NaN; otherwise the configured default if it converts to a number other than 0 and
  NaN; otherwise 10. With default 10 and per-token factor 25, the request's \<open>''30''\<close>
  gives 30 and \<open>''-1''\<close> gives 25; with no per-token factor and none in the request the
  default 10 is the result. The fee factor of an assembled order is this value for the
  configured default, the first token configuration with the maker token's symbol, and
  the request's factor.
\<close>

theorem fFactor_priority:
  "(ToBoolean qf \<and> \<not> isNaN (ToNumber qf) \<and> geZero (ToNumber qf)
      \<longrightarrow> fFactor cf found qf = ToNumber qf)
   \<and> (\<not> (ToBoolean qf \<and> \<not> isNaN (ToNumber qf) \<and> geZero (ToNumber qf))
      \<longrightarrow> (\<forall>t n. found = Some t \<and> tc_feeFactor t = Some n \<and> truthyNumber n
             \<longrightarrow> fFactor cf found qf = n)
        \<and> ((found = None \<or> (\<exists>t. found = Some t \<and> tc_feeFactor t = None)
            \<or> (\<exists>t n. found = Some t \<and> tc_feeFactor t = Some n \<and> \<not> truthyNumber n))
           \<longrightarrow> fFactor cf found qf
                 = (if truthyNumber (ToNumber cf) then ToNumber cf else Fin 10)))
   \<and> fFactor (JNum (Fin 10)) (Some perToken25) (JStr ''30'') = Fin 30
   \<and> fFactor (JNum (Fin 10)) (Some perToken25) (JStr ''-1'') = Fin 25
   \<and> fFactor (JNum (Fin 10)) None Undefined = Fin 10
   \<and> fFactor Undefined None Undefined = Fin 10
   \<and> (\<forall>ord. getOrderAndFeeFactor env query rt tokenList tokenConfigs config = Inr ord
          \<longrightarrow> (\<exists>baseToken quoteToken.
                 getTokenByAddress env tokenList (baseAddress query) = Inr baseToken
               \<and> getTokenByAddress env tokenList (quoteAddress query) = Inr quoteToken
               \<and> feeFactor ord =
                   fFactor (cfg_feeFactor config)
                     (find (\<lambda>t. tc_symbol t
                                  = symbol (makerTokenOf (side query) baseToken quoteToken))
                        tokenConfigs)
                     (feefactor query)))"
proof -
  have rules: "(ToBoolean qf \<and> \<not> isNaN (ToNumber qf) \<and> geZero (ToNumber qf)
      \<longrightarrow> fFactor cf found qf = ToNumber qf)
   \<and> (\<not> (ToBoolean qf \<and> \<not> isNaN (ToNumber qf) \<and> geZero (ToNumber qf))
      \<longrightarrow> (\<forall>t n. found = Some t \<and> tc_feeFactor t = Some n \<and> truthyNumber n
             \<longrightarrow> fFactor cf found qf = n)
        \<and> ((found = None \<or> (\<exists>t. found = Some t \<and> tc_feeFactor t = None)
            \<or> (\<exists>t n. found = Some t \<and> tc_feeFactor t = Some n \<and> \<not> truthyNumber n))
           \<longrightarrow> fFactor cf found qf
                 = (if truthyNumber (ToNumber cf) then ToNumber cf else Fin 10)))"
    by (auto simp add: fFactor_def)
  have examples: "fFactor (JNum (Fin 10)) (Some perToken25) (JStr ''30'') = Fin 30
   \<and> fFactor (JNum (Fin 10)) (Some perToken25) (JStr ''-1'') = Fin 25
   \<and> fFactor (JNum (Fin 10)) None Undefined = Fin 10
   \<and> fFactor Undefined None Undefined = Fin 10"
    by (simp add: fFactor_def perToken25_def ToNumber_def ToBoolean_def truthyNumber_def
        isNaN_def geZero_def StringToNumber_30 StringToNumber_minus1)
  have assembled: "\<exists>baseToken quoteToken.
                 getTokenByAddress env tokenList (baseAddress query) = Inr baseToken
               \<and> getTokenByAddress env tokenList (quoteAddress query) = Inr quoteToken
               \<and> feeFactor ord =
                   fFactor (cfg_feeFactor config)
                     (find (\<lambda>t. tc_symbol t
                                  = symbol (makerTokenOf (side query) baseToken quoteToken))
                        tokenConfigs)
                     (feefactor query)"
    if "getOrderAndFeeFactor env query rt tokenList tokenConfigs config = Inr ord" for ord
    using getOrderAndFeeFactor_Inr [OF that] by blast
  from rules examples assembled show ?thesis by blast
qed

text \<open>
  The request's \<open>''0''\<close> wins over per-token 25; the number 0 and the empty string in the
  request do not; a default that is 0 gives way to 10.
\<close>

theorem fFactor_priority_witness:
  "fFactor (JNum (Fin 10)) (Some perToken25) (JStr ''0'') = Fin 0
   \<and> fFactor (JNum (Fin 10)) (Some perToken25) (JNum (Fin 0)) = Fin 25
   \<and> fFactor (JNum (Fin 7)) (Some perToken0) (JStr []) = Fin 7
   \<and> fFactor (JStr ''0'') None Null = Fin 10
   \<and> (case getOrderAndFeeFactor exampleEnv (req exampleQuery) (Finite 200) exampleTokens
             [perToken25] exampleConfig of
        Inr ord \<Rightarrow> feeFactor ord = Fin 25
      | Inl e \<Rightarrow> False)"
proof -
  have v: "(case getOrderAndFeeFactor exampleEnv (req exampleQuery) (Finite 200) exampleTokens
             [perToken25] exampleConfig of
        Inr ord \<Rightarrow> feeFactor ord = Fin 25
      | Inl e \<Rightarrow> False)"
    by code_simp
  from fFactor_priority [of "JStr ''0''" "JNum (Fin 10)" "Some perToken25"]
    fFactor_priority [of "JNum (Fin 0)" "JNum (Fin 10)" "Some perToken25"]
    fFactor_priority [of "JStr []" "JNum (Fin 7)" "Some perToken0"]
    fFactor_priority [of Null "JStr ''0''" None]
    v
  show ?thesis
    by (simp add: perToken25_def perToken0_def ToNumber_def ToBoolean_def truthyNumber_def
        isNaN_def geZero_def StringToNumber_0)
qed

section \<open>The assembled order: its addresses\<close>

lemma buyNative_RFQV2:
  "getOrderAndFeeFactor exampleEnv (buyNativeQuery RFQV2) (Finite 200) exampleTokens []
     exampleConfig
   = Inr (projr (getOrderAndFeeFactor exampleEnv (buyNativeQuery RFQV2) (Finite 200)
                   exampleTokens [] exampleConfig))"
  by code_simp

lemma buyNative_PMMV5:
  "getOrderAndFeeFactor exampleEnv (buyNativeQuery PMMV5) (Finite 200) exampleTokens []
     exampleConfig
   = Inr (projr (getOrderAndFeeFactor exampleEnv (buyNativeQuery PMMV5) (Finite 200)
                   exampleTokens [] exampleConfig))"
  by code_simp

lemma lookupToken_mem: "lookupToken tokens a = Inr t \<Longrightarrow> t \<in> set tokens"
  by (auto simp add: lookupToken_def find_Some_iff split: option.splits)

lemma exampleTokens_lower:
  "t \<in> set exampleTokens \<Longrightarrow> isLowerCase (contractAddress t)"
proof -
  have "isLowerCase (contractAddress tokenA)" "isLowerCase (contractAddress tokenB)"
    "isLowerCase (contractAddress nativeToken)"
    by code_simp+
  then show "t \<in> set exampleTokens \<Longrightarrow> isLowerCase (contractAddress t)"
    by (auto simp add: exampleTokens_def)
qed

subsection \<open>The wrapped-native address\<close>

text \<open>
  C4. In an assembled order the maker asset address is what \<^verbatim>\<open>getWethAddrIfIsEth\<close> gives
  for the maker token's contract address and the configured wrapped-native address, for
  every protocol; the taker asset address is the taker token's raw contract address
  when the protocol is RFQV2, and what \<^verbatim>\<open>getWethAddrIfIsEth\<close> gives for the taker token
  for every other protocol. With the helper as the spec words it (\<open>wethAddrIfIsEth\<close>), a
  maker token at the native sentinel gets the wrapped-native address, and a taker token
  at the sentinel gets it unless the protocol is RFQV2, where the sentinel stays.
\<close>

theorem wrapped_native_substitution:
  assumes "getOrderAndFeeFactor env query rt tokenList tokenConfigs config = Inr ord"
  shows "\<exists>baseToken quoteToken.
           getTokenByAddress env tokenList (baseAddress query) = Inr baseToken
         \<and> getTokenByAddress env tokenList (quoteAddress query) = Inr quoteToken
         \<and> makerAssetAddress ord =
             getWethAddrIfIsEth env
               (contractAddress (makerTokenOf (side query) baseToken quoteToken))
               (wethContractAddress config)
         \<and> (q_protocol query = RFQV2 \<longrightarrow>
              takerAssetAddress ord
                = contractAddress (takerTokenOf (side query) baseToken quoteToken))
         \<and> (q_protocol query \<noteq> RFQV2 \<longrightarrow>
              takerAssetAddress ord =
                getWethAddrIfIsEth env
                  (contractAddress (takerTokenOf (side query) baseToken quoteToken))
                  (wethContractAddress config))
         \<and> (getWethAddrIfIsEth env = wethAddrIfIsEth sentinel \<longrightarrow>
              (contractAddress (makerTokenOf (side query) baseToken quoteToken) = sentinel
                 \<longrightarrow> makerAssetAddress ord = wethContractAddress config)
            \<and> (contractAddress (takerTokenOf (side query) baseToken quoteToken) = sentinel
                 \<longrightarrow> takerAssetAddress ord
                       = (if q_protocol query = RFQV2 then sentinel
                          else wethContractAddress config)))"
proof -
  from getOrderAndFeeFactor_Inr [OF assms] obtain baseToken quoteToken where
    b: "getTokenByAddress env tokenList (baseAddress query) = Inr baseToken" and
    q: "getTokenByAddress env tokenList (quoteAddress query) = Inr quoteToken" and
    m: "makerAssetAddress ord =
          getWethAddrIfIsEth env
            (contractAddress (makerTokenOf (side query) baseToken quoteToken))
            (wethContractAddress config)" and
    t: "takerAssetAddress ord =
          (if q_protocol query = RFQV2
           then contractAddress (takerTokenOf (side query) baseToken quoteToken)
           else getWethAddrIfIsEth env
                  (contractAddress (takerTokenOf (side query) baseToken quoteToken))
                  (wethContractAddress config))"
    by blast
  show ?thesis
    apply (rule exI [of _ baseToken], rule exI [of _ quoteToken])
    using b q m t by (simp add: wethAddrIfIsEth_def)
qed

text \<open>
  A BUY of the native token against itself: under RFQV2 the maker side gets the
  wrapped-native address and the taker side keeps the sentinel; under RFQV1 both sides
  get the wrapped-native address.
\<close>

theorem wrapped_native_substitution_witness:
  "(case getOrderAndFeeFactor exampleEnv (buyNativeQuery RFQV2) (Finite 200) exampleTokens []
           exampleConfig of
      Inr ord \<Rightarrow> makerAssetAddress ord = ''0xc0de'' \<and> takerAssetAddress ord = ''0x0000''
    | Inl e \<Rightarrow> False)
   \<and> (case getOrderAndFeeFactor exampleEnv (buyNativeQuery RFQV1) (Finite 200) exampleTokens []
           exampleConfig of
      Inr ord \<Rightarrow> makerAssetAddress ord = ''0xc0de'' \<and> takerAssetAddress ord = ''0xc0de''
    | Inl e \<Rightarrow> False)"
proof -
  have one: "(case getOrderAndFeeFactor exampleEnv (buyNativeQuery RFQV2) (Finite 200)
                     exampleTokens [] exampleConfig of
                Inr ord \<Rightarrow> makerAssetAddress ord = ''0xc0de'' \<and> takerAssetAddress ord = ''0x0000''
              | Inl e \<Rightarrow> False)"
    by code_simp
  have two: "(case getOrderAndFeeFactor exampleEnv (buyNativeQuery RFQV1) (Finite 200)
                     exampleTokens [] exampleConfig of
                Inr ord \<Rightarrow> makerAssetAddress ord = ''0xc0de'' \<and> takerAssetAddress ord = ''0xc0de''
              | Inl e \<Rightarrow> False)"
    by code_simp
  from wrapped_native_substitution [OF buyNative_RFQV2, of "''0x0000''"]
  show ?thesis using one two by simp
qed

subsection \<open>Lower-case addresses\<close>

text \<open>
  C5 as stated fails. The taker address is the configured user-proxy address as it is:
  configured \<open>''0xCD02''\<close>, it is returned so. Under RFQV2 the taker asset address is the
  registry's contract address as it is: registered \<open>''0xCc03''\<close>, it is returned so.
\<close>

theorem lower_case_addresses_counterexample:
  "(case getOrderAndFeeFactor exampleEnv (buyNativeQuery PMMV5) (Finite 200) exampleTokens []
           exampleConfig of
      Inr ord \<Rightarrow> takerAddress ord = ''0xCD02'' \<and> \<not> isLowerCase (takerAddress ord)
    | Inl e \<Rightarrow> False)
   \<and> (case getOrderAndFeeFactor exampleEnv buyTokenCQuery (Finite 200)
             [tokenA, tokenC] [] exampleConfig of
      Inr ord \<Rightarrow> takerAssetAddress ord = ''0xCc03'' \<and> \<not> isLowerCase (takerAssetAddress ord)
    | Inl e \<Rightarrow> False)"
  by code_simp

text \<open>
  C5, amended. In every assembled order the maker address, the sender address, the fee
  recipient address and the exchange address are lower-case. The maker and taker asset
  addresses are lower-case when the registry's contract addresses and the configured
  wrapped-native address are and \<^verbatim>\<open>getWethAddrIfIsEth\<close> keeps lower-case arguments
  lower-case.
\<close>

theorem lower_case_addresses:
  assumes "getOrderAndFeeFactor env query rt tokenList tokenConfigs config = Inr ord"
  shows "isLowerCase (makerAddress ord) \<and> isLowerCase (senderAddress ord)
       \<and> isLowerCase (feeRecipientAddress ord) \<and> isLowerCase (exchangeAddress ord)
       \<and> ((\<forall>a w. isLowerCase a \<and> isLowerCase w \<longrightarrow> isLowerCase (getWethAddrIfIsEth env a w))
            \<and> isLowerCase (wethContractAddress config)
            \<and> (\<forall>a t. getTokenByAddress env tokenList a = Inr t
                   \<longrightarrow> isLowerCase (contractAddress t))
          \<longrightarrow> isLowerCase (makerAssetAddress ord) \<and> isLowerCase (takerAssetAddress ord))"
proof -
  from getOrderAndFeeFactor_Inr [OF assms] obtain baseToken quoteToken where
    b: "getTokenByAddress env tokenList (baseAddress query) = Inr baseToken" and
    q: "getTokenByAddress env tokenList (quoteAddress query) = Inr quoteToken" and
    m: "makerAssetAddress ord =
          getWethAddrIfIsEth env
            (contractAddress (makerTokenOf (side query) baseToken quoteToken))
            (wethContractAddress config)" and
    t: "takerAssetAddress ord =
          (if q_protocol query = RFQV2
           then contractAddress (takerTokenOf (side query) baseToken quoteToken)
           else getWethAddrIfIsEth env
                  (contractAddress (takerTokenOf (side query) baseToken quoteToken))
                  (wethContractAddress config))" and
    f: "makerAddress ord = toLowerCase (mmProxyContractAddress config)"
       "senderAddress ord = toLowerCase (tokenlonExchangeContractAddress config)"
       "feeRecipientAddress ord = toLowerCase (FEE_RECIPIENT_ADDRESS env)"
       "exchangeAddress ord = toLowerCase (exchangeContractAddress config)"
    by blast
  have four: "isLowerCase (makerAddress ord) \<and> isLowerCase (senderAddress ord)
       \<and> isLowerCase (feeRecipientAddress ord) \<and> isLowerCase (exchangeAddress ord)"
    by (simp add: f isLowerCase_toLowerCase)
  have assets: "isLowerCase (makerAssetAddress ord) \<and> isLowerCase (takerAssetAddress ord)"
    if h: "\<forall>a w. isLowerCase a \<and> isLowerCase w \<longrightarrow> isLowerCase (getWethAddrIfIsEth env a w)"
      and w: "isLowerCase (wethContractAddress config)"
      and l: "\<forall>a t. getTokenByAddress env tokenList a = Inr t \<longrightarrow> isLowerCase (contractAddress t)"
  proof -
    from l b q have "isLowerCase (contractAddress baseToken)"
      and "isLowerCase (contractAddress quoteToken)" by blast+
    then have mk: "isLowerCase (contractAddress (makerTokenOf (side query) baseToken quoteToken))"
      and tk: "isLowerCase (contractAddress (takerTokenOf (side query) baseToken quoteToken))"
      by (simp_all add: makerTokenOf_def takerTokenOf_def)
    from h mk tk w show ?thesis by (simp add: m t)
  qed
  from four assets show ?thesis by blast
qed

text \<open>
  With the mixed-case configuration and the lower-case registry of the examples: the
  four addresses come out lower-cased, and so do the two asset addresses.
\<close>

theorem lower_case_addresses_witness:
  "(case getOrderAndFeeFactor exampleEnv (buyNativeQuery PMMV5) (Finite 200) exampleTokens []
           exampleConfig of
      Inr ord \<Rightarrow> makerAddress ord = ''0xab01'' \<and> senderAddress ord = ''0xef03''
                 \<and> feeRecipientAddress ord = ''0xfee5'' \<and> exchangeAddress ord = ''0xec04''
                 \<and> isLowerCase (makerAddress ord) \<and> isLowerCase (senderAddress ord)
                 \<and> isLowerCase (feeRecipientAddress ord) \<and> isLowerCase (exchangeAddress ord)
                 \<and> isLowerCase (makerAssetAddress ord) \<and> isLowerCase (takerAssetAddress ord)
    | Inl e \<Rightarrow> False)"
proof -
  have v: "(case getOrderAndFeeFactor exampleEnv (buyNativeQuery PMMV5) (Finite 200)
                   exampleTokens [] exampleConfig of
              Inr ord \<Rightarrow> makerAddress ord = ''0xab01'' \<and> senderAddress ord = ''0xef03''
                 \<and> feeRecipientAddress ord = ''0xfee5'' \<and> exchangeAddress ord = ''0xec04''
            | Inl e \<Rightarrow> False)"
    by code_simp
  have h: "\<forall>a w. isLowerCase a \<and> isLowerCase w
             \<longrightarrow> isLowerCase (getWethAddrIfIsEth exampleEnv a w)"
    by (simp add: exampleEnv_def wethAddrIfIsEth_def)
  have w: "isLowerCase (wethContractAddress exampleConfig)"
    by code_simp
  have l: "\<forall>a t. getTokenByAddress exampleEnv exampleTokens a = Inr t
             \<longrightarrow> isLowerCase (contractAddress t)"
    using lookupToken_mem exampleTokens_lower by (auto simp add: exampleEnv_def)
  from lower_case_addresses [OF buyNative_PMMV5] v h w l show ?thesis
    by (simp split: sum.splits)
qed

section \<open>newOrder\<close>

lemma beforeSwitch_Inr:
  assumes "beforeSwitch env ctx rq = Inr (query, rateBody, config, tokenList, ord)"
  shows "preprocessQuote env rq = Inr query
       \<and> thrownValidationError (validateRequest env query) = None
       \<and> thrownValidationError
           (validateNewOrderRequest env (amount query) (uniqId query) (userAddr query)) = None
       \<and> requestMarketMaker env (getPrice ctx) query = Inr rateBody
       \<and> config = markerMakerConfig env \<and> tokenList = getSupportedTokens env
       \<and> getOrderAndFeeFactor env query (rb_rate rateBody) tokenList
           (tokenConfigsFromImtoken env) config = Inr ord"
  using assms
  by (simp add: beforeSwitch_def Let_def split: sum.splits option.splits)

lemma requestMarketMaker_Inr:
  assumes "requestMarketMaker env quoter query = Inr rateBody"
  shows "\<exists>priceResult. quoter query = Inr priceResult
           \<and> rb_quoteId rateBody = addQuoteIdPrefix env (pr_quoteId priceResult)
           \<and> rb_payload rateBody = pr_payload priceResult"
  using assms
  by (auto simp add: requestMarketMaker_def split: sum.splits)

lemma switchProtocol_Inr:
  assumes "switchProtocol bs cache ctx query rateBody config tokenList ord = (cache', Inr resp)"
  shows "\<exists>mn mx built.
           resp = \<lparr>result = None, exchangeable = None, rate = Some (rb_rate rateBody),
                    minAmount = Some mn, maxAmount = Some mx, order = Some built,
                    message = None\<rparr>"
  using assms
  by (auto simp add: switchProtocol_def Let_def
      split: Protocol.splits prod.splits option.splits sum.splits)



lemma tryBlock_Inr:
  assumes "tryBlock bs env cache ctx = (cache', Inr resp)"
  shows "\<exists>query rateBody config tokenList ord mn mx built.
           beforeSwitch env ctx (req (ctx_query ctx))
             = Inr (query, rateBody, config, tokenList, ord)
         \<and> switchProtocol bs cache ctx query rateBody config tokenList ord
             = (cache', Inr \<lparr>result = None, exchangeable = None, rate = Some (rb_rate rateBody),
                    minAmount = Some mn, maxAmount = Some mx, order = Some built,
                    message = None\<rparr>)
         \<and> resp = \<lparr>result = None, exchangeable = None, rate = Some (rb_rate rateBody),
                    minAmount = Some mn, maxAmount = Some mx,
                    order = Some (built\<lparr>quoteId := Some (rb_quoteId rateBody),
                                        protocol := q_protocol query\<rparr>),
                    message = None\<rparr>"
proof -
  from assms obtain query rateBody config tokenList ord where
    b: "beforeSwitch env ctx (req (ctx_query ctx)) = Inr (query, rateBody, config, tokenList, ord)"
    by (cases "beforeSwitch env ctx (req (ctx_query ctx))") (auto simp add: tryBlock_def)
  from assms b obtain r where
    s: "switchProtocol bs cache ctx query rateBody config tokenList ord = (cache', Inr r)"
    by (auto simp add: tryBlock_def split: prod.splits sum.splits option.splits)
  from switchProtocol_Inr [OF s] obtain mn mx built where
    r: "r = \<lparr>result = None, exchangeable = None, rate = Some (rb_rate rateBody),
              minAmount = Some mn, maxAmount = Some mx, order = Some built, message = None\<rparr>"
    by blast
  from assms b s r have
    "resp = \<lparr>result = None, exchangeable = None, rate = Some (rb_rate rateBody),
                    minAmount = Some mn, maxAmount = Some mx,
                    order = Some (built\<lparr>quoteId := Some (rb_quoteId rateBody),
                                        protocol := q_protocol query\<rparr>),
                    message = None\<rparr>"
    by (simp add: tryBlock_def)
  with b s r show ?thesis by blast
qed

subsection \<open>The response\<close>




subsection \<open>An unrecognized protocol\<close>




subsection \<open>The stamped fields\<close>

text \<open>
  C8. Whenever \<^verbatim>\<open>newOrder\<close> succeeds, with any builders, the order in \<^verbatim>\<open>ctx.body\<close> and in
  the returned object is the builder's order with two fields overwritten: its protocol
  is the protocol of the preprocessed query, and its quoteId is the quote's, that is
  the \<^verbatim>\<open>quoteId\<close> of the rate body, which \<^verbatim>\<open>requestMarketMaker\<close> sets to
  \<^verbatim>\<open>addQuoteIdPrefix\<close> of the quoter's id.
\<close>

theorem stamped_quoteId_protocol:
  assumes "newOrder bs env cache ctx = (cache', body, ret)" and "result body = Some True"
  shows "\<exists>query priceResult built.
           preprocessQuote env (req (ctx_query ctx)) = Inr query
         \<and> getPrice ctx query = Inr priceResult
         \<and> order body
             = Some (built\<lparr>quoteId := Some (addQuoteIdPrefix env (pr_quoteId priceResult)),
                          protocol := q_protocol query\<rparr>)
         \<and> (\<exists>stamped. order body = Some stamped \<and> protocol stamped = q_protocol query
                \<and> quoteId stamped = Some (addQuoteIdPrefix env (pr_quoteId priceResult))
                \<and> (\<exists>r. ret = ReturnedObject r \<and> order r = Some stamped))"
proof (cases "tryBlock bs env cache ctx")
  case (Pair c outcome)
  show ?thesis
  proof (cases outcome)
    case (Inl msg)
    with Pair assms show ?thesis by (auto simp add: newOrder_def)
  next
    case (Inr resp)
    with Pair have t: "tryBlock bs env cache ctx = (c, Inr resp)" by simp
    from tryBlock_Inr [OF t] obtain query rateBody config tokenList ord mn mx built where
      b: "beforeSwitch env ctx (req (ctx_query ctx))
            = Inr (query, rateBody, config, tokenList, ord)" and
      r: "resp = \<lparr>result = None, exchangeable = None, rate = Some (rb_rate rateBody),
                    minAmount = Some mn, maxAmount = Some mx,
                    order = Some (built\<lparr>quoteId := Some (rb_quoteId rateBody),
                                        protocol := q_protocol query\<rparr>),
                    message = None\<rparr>"
      by blast
    from beforeSwitch_Inr [OF b] have
      p: "preprocessQuote env (req (ctx_query ctx)) = Inr query" and
      m: "requestMarketMaker env (getPrice ctx) query = Inr rateBody"
      by simp_all
    from requestMarketMaker_Inr [OF m] obtain priceResult where
      g: "getPrice ctx query = Inr priceResult" and
      i: "rb_quoteId rateBody = addQuoteIdPrefix env (pr_quoteId priceResult)"
      by blast
    from t assms(1) have "body = resp\<lparr>result := Some True, exchangeable := Some True\<rparr>"
      and "ret = ReturnedObject resp"
      by (simp_all add: newOrder_def)
    with r i have
      "order body
         = Some (built\<lparr>quoteId := Some (addQuoteIdPrefix env (pr_quoteId priceResult)),
                      protocol := q_protocol query\<rparr>)"
      and "ret = ReturnedObject resp"
      and "order resp
         = Some (built\<lparr>quoteId := Some (addQuoteIdPrefix env (pr_quoteId priceResult)),
                      protocol := q_protocol query\<rparr>)"
      by simp_all
    with p g show ?thesis by auto
  qed
qed

text \<open>
  The builders of the examples set quoteId to \<open>builder\<close> and protocol to a tag of their
  own; the response carries the prefixed quote id and the request's PMMV5.
\<close>

theorem stamped_quoteId_protocol_witness:
  "(case newOrder exampleBuilders exampleEnv emptyCache exampleCtx of
      (c, body, ret) \<Rightarrow>
        result body = Some True
        \<and> map_option quoteId (order body) = Some (Some ''TD-q7'')
        \<and> map_option protocol (order body) = Some PMMV5
        \<and> map_option makerWalletSignature (order body) = Some (Some ''pmmv5''))"
proof -
  obtain c body ret where
    n: "newOrder exampleBuilders exampleEnv emptyCache exampleCtx = (c, body, ret)"
    by (cases "newOrder exampleBuilders exampleEnv emptyCache exampleCtx") auto
  have v: "(case newOrder exampleBuilders exampleEnv emptyCache exampleCtx of
      (c, body, ret) \<Rightarrow>
        result body = Some True
        \<and> map_option quoteId (order body) = Some (Some ''TD-q7'')
        \<and> map_option protocol (order body) = Some PMMV5
        \<and> map_option makerWalletSignature (order body) = Some (Some ''pmmv5''))"
    by code_simp
  with n have r: "result body = Some True" by simp
  from stamped_quoteId_protocol [OF n r] v show ?thesis
    by simp
qed

subsection \<open>The memoized lookup after a refresh\<close>

lemma getBaseTokenByAddress_miss:
  "cache a = None \<Longrightarrow>
   getBaseTokenByAddress cache a tokenList
     = (plain_getBaseTokenByAddress a tokenList,
        cache(a \<mapsto> plain_getBaseTokenByAddress a tokenList))"
  by (simp add: getBaseTokenByAddress_def Let_def)

lemma getBaseTokenByAddress_hit:
  "cache a = Some cached \<Longrightarrow> getBaseTokenByAddress cache a tokenList = (cached, cache)"
  by (simp add: getBaseTokenByAddress_def)

text \<open>
  C9 fails on the code. After a first lookup of an address in one token list, a lookup
  of the same address in a refreshed list returns the descriptor of the first list, not
  what the plain lookup finds in the list supplied. Through \<^verbatim>\<open>newOrder\<close>: an AMMV1
  request after the registry's bounds of the base token went from 1 and 100 to 2 and 50
  still answers 1 and 100.
\<close>

theorem memoized_lookup_stale:
  "(case getBaseTokenByAddress emptyCache ''0xaa01'' [tokenA] of
      (first, cache1) \<Rightarrow>
        first = plain_getBaseTokenByAddress ''0xaa01'' [tokenA]
        \<and> (case getBaseTokenByAddress cache1 ''0xaa01'' [refreshedTokenA] of
             (second, cache2) \<Rightarrow>
               second = Some tokenA
               \<and> plain_getBaseTokenByAddress ''0xaa01'' [refreshedTokenA] = Some refreshedTokenA
               \<and> second \<noteq> plain_getBaseTokenByAddress ''0xaa01'' [refreshedTokenA]))
   \<and> (case newOrder exampleBuilders exampleEnv emptyCache ammCtx of
      (cache1, body1, ret1) \<Rightarrow>
        minAmount body1 = Some (Fin 1)
        \<and> (case newOrder exampleBuilders
                   (exampleEnv\<lparr>getSupportedTokens := [refreshedTokenA, tokenB]\<rparr>) cache1 ammCtx of
             (cache2, body2, ret2) \<Rightarrow>
               result body2 = Some True \<and> minAmount body2 = Some (Fin 1)
               \<and> maxAmount body2 = Some (Fin 100)))"
  by code_simp

subsection \<open>The default protocol\<close>

text \<open>
  C10. The request that \<^verbatim>\<open>newOrder\<close> works on has the protocol PMMV5 when the incoming
  request has no protocol, and the incoming request's protocol when it has one; its
  other properties are the incoming request's. A request without a protocol is handled
  exactly as the same request with the protocol PMMV5, and the defaulted request is what
  the first step, \<^verbatim>\<open>preprocessQuote\<close>, receives, before validation and the \<^verbatim>\<open>switch\<close>.
\<close>

theorem default_protocol:
  "q_protocol (req q) = (case q_protocol q of None \<Rightarrow> PMMV5 | Some p \<Rightarrow> p)
   \<and> side (req q) = side q \<and> amount (req q) = amount q \<and> feefactor (req q) = feefactor q
   \<and> baseAddress (req q) = baseAddress q \<and> quoteAddress (req q) = quoteAddress q
   \<and> uniqId (req q) = uniqId q \<and> userAddr (req q) = userAddr q
   \<and> (q_protocol q = None \<longrightarrow>
        newOrder bs env cache (ctx\<lparr>ctx_query := q\<rparr>)
          = newOrder bs env cache (ctx\<lparr>ctx_query := q\<lparr>q_protocol := Some PMMV5\<rparr>\<rparr>))
   \<and> (\<forall>e. preprocessQuote env (req (ctx_query ctx)) = Inl e \<longrightarrow>
        newOrder bs env cache ctx = (cache, failureBody e, ReturnedString e))"
proof -
  have r: "req q = req (q\<lparr>q_protocol := Some PMMV5\<rparr>)" if "q_protocol q = None"
    using that by (simp add: req_def)
  let ?q = "q\<lparr>q_protocol := Some PMMV5\<rparr>"
  have s: "switchProtocol bs cache (ctx\<lparr>ctx_query := q\<rparr>)
         = switchProtocol bs cache (ctx\<lparr>ctx_query := ?q\<rparr>)"
    by (intro ext) (simp add: switchProtocol_def Let_def split: Protocol.splits option.splits)
  have b: "beforeSwitch env (ctx\<lparr>ctx_query := q\<rparr>) = beforeSwitch env (ctx\<lparr>ctx_query := ?q\<rparr>)"
    by (intro ext) (simp add: beforeSwitch_def Let_def split: sum.splits option.splits)
  have n: "newOrder bs env cache (ctx\<lparr>ctx_query := q\<rparr>)
          = newOrder bs env cache (ctx\<lparr>ctx_query := ?q\<rparr>)"
    if "q_protocol q = None"
    unfolding newOrder_def tryBlock_def s b
    using r [OF that] by simp
  have f: "newOrder bs env cache ctx = (cache, failureBody e, ReturnedString e)"
    if "preprocessQuote env (req (ctx_query ctx)) = Inl e" for e
    using that by (simp add: newOrder_def tryBlock_def beforeSwitch_def failureBody_def)
  from n f show ?thesis by (simp add: req_def)
qed

theorem default_protocol_witness:
  "q_protocol exampleQuery = None \<and> q_protocol (req exampleQuery) = PMMV5
   \<and> q_protocol (req (exampleQuery\<lparr>q_protocol := Some RFQV1\<rparr>)) = RFQV1
   \<and> newOrder exampleBuilders exampleEnv emptyCache (exampleCtx\<lparr>ctx_query := exampleQuery\<rparr>)
      = newOrder exampleBuilders exampleEnv emptyCache
          (exampleCtx\<lparr>ctx_query := exampleQuery\<lparr>q_protocol := Some PMMV5\<rparr>\<rparr>)
   \<and> preprocessQuote rejectingEnv (req (ctx_query exampleCtx)) = Inl ''bad request''
   \<and> newOrder exampleBuilders rejectingEnv emptyCache exampleCtx
      = (emptyCache, failureBody ''bad request'', ReturnedString ''bad request'')"
  using default_protocol [of exampleQuery exampleBuilders exampleEnv emptyCache exampleCtx]
    default_protocol [of "exampleQuery\<lparr>q_protocol := Some RFQV1\<rparr>"]
    default_protocol [of exampleQuery exampleBuilders rejectingEnv emptyCache exampleCtx]
  by (simp add: exampleQuery_def rejectingEnv_def)

end
